theory Spec2Isabelle
  imports Complex_Main
begin

section \<open>Python values, exceptions and library functions\<close>

text \<open>
  The program is \<^verbatim>\<open>weather_cli/cli.py\<close>. Its data are what \<^verbatim>\<open>json.load\<close> returns:
  \<^verbatim>\<open>None\<close>, booleans, integers, floats, strings, lists and dictionaries with string
  keys. A string is a list of code points; the only code point beyond ASCII that the
  program writes is the degree sign U+00B0, which is \<open>CHR 0xB0\<close>. A float is the
  real number it denotes (the program never calculates with one). A dictionary is an
  association list with distinct keys, read with \<open>map_of\<close>.
\<close>

datatype error = RuntimeError | AttributeError | KeyError | IndexError | TypeError | ValueError

datatype json =
    JNull
  | JBool bool
  | JInt int
  | JFloat real
  | JStr string
  | JArr "json list"
  | JObj "(string \<times> json) list"

record datetime =
  dt_year :: nat
  dt_month :: nat
  dt_day :: nat
  dt_hour :: nat
  dt_minute :: nat
  dt_second :: nat

text \<open>
  Functions of the Python library that the program calls and that are not part of the
  repository are parameters: \<open>repr\<close> (the text of a float, a list or a dictionary),
  \<open>int_of_str\<close> (\<^verbatim>\<open>int(s)\<close> on a string, \<open>None\<close> when it raises),
  \<open>fromisoformat\<close> (\<^verbatim>\<open>datetime.fromisoformat\<close>, \<open>None\<close> when it raises) and
  \<open>urlencode\<close>.
\<close>

record builtins =
  repr :: "json \<Rightarrow> string"
  int_of_str :: "string \<Rightarrow> int option"
  fromisoformat :: "string \<Rightarrow> datetime option"
  urlencode :: "(string \<times> json) list \<Rightarrow> string"

text \<open>What \<^verbatim>\<open>urllib.request.urlopen\<close> does with a URL: it raises, or it gives a
  response with a status and a body that \<^verbatim>\<open>json.load\<close> parses or rejects.\<close>

datatype http_outcome = Transport_failure | Http_response int "json option"

definition ebind :: "error + 'a \<Rightarrow> ('a \<Rightarrow> error + 'b) \<Rightarrow> error + 'b" where
  "ebind m f = (case m of Inl e \<Rightarrow> Inl e | Inr x \<Rightarrow> f x)"

text \<open>Truth value of a Python object (\<^verbatim>\<open>if not x\<close>, \<^verbatim>\<open>x or y\<close>).\<close>

fun truthy :: "json \<Rightarrow> bool" where
  "truthy JNull = False"
| "truthy (JBool b) = b"
| "truthy (JInt n) = (n \<noteq> 0)"
| "truthy (JFloat x) = (x \<noteq> 0)"
| "truthy (JStr s) = (s \<noteq> [])"
| "truthy (JArr xs) = (xs \<noteq> [])"
| "truthy (JObj kvs) = (kvs \<noteq> [])"

text \<open>\<^verbatim>\<open>d.get(k, default)\<close>: only a dictionary has the method.\<close>

definition dict_get :: "(string \<times> json) list \<Rightarrow> string \<Rightarrow> json \<Rightarrow> json" where
  "dict_get kvs k dflt = (case map_of kvs k of Some v \<Rightarrow> v | None \<Rightarrow> dflt)"

fun py_get :: "json \<Rightarrow> string \<Rightarrow> json \<Rightarrow> error + json" where
  "py_get (JObj kvs) k dflt = Inr (dict_get kvs k dflt)"
| "py_get _ k dflt = Inl AttributeError"

text \<open>\<^verbatim>\<open>d[k]\<close> with a string key, on a dictionary.\<close>

fun py_item :: "json \<Rightarrow> string \<Rightarrow> error + json" where
  "py_item (JObj kvs) k = (case map_of kvs k of Some v \<Rightarrow> Inr v | None \<Rightarrow> Inl KeyError)"
| "py_item _ k = Inl TypeError"

text \<open>\<^verbatim>\<open>len(x)\<close>.\<close>

fun py_len :: "json \<Rightarrow> error + nat" where
  "py_len (JStr s) = Inr (length s)"
| "py_len (JArr xs) = Inr (length xs)"
| "py_len (JObj kvs) = Inr (length kvs)"
| "py_len _ = Inl TypeError"

text \<open>\<^verbatim>\<open>x[i]\<close> with an index \<open>i \<ge> 0\<close>: a list or a string raises IndexError out of
  range; a dictionary of string keys has no integer key; nothing else is subscriptable.\<close>

fun py_index :: "json \<Rightarrow> nat \<Rightarrow> error + json" where
  "py_index (JArr xs) i = (if i < length xs then Inr (xs ! i) else Inl IndexError)"
| "py_index (JStr s) i = (if i < length s then Inr (JStr [s ! i]) else Inl IndexError)"
| "py_index (JObj kvs) i = Inl KeyError"
| "py_index _ i = Inl TypeError"

text \<open>\<^verbatim>\<open>range(n)\<close>: empty when \<open>n \<le> 0\<close>.\<close>

definition py_range :: "int \<Rightarrow> nat list" where
  "py_range n = [0..<nat n]"

subsection \<open>Text of a value\<close>

definition digit_char :: "nat \<Rightarrow> char" where
  "digit_char d = ''0123456789'' ! d"

function str_nat :: "nat \<Rightarrow> string" where
  "str_nat n = (if n < 10 then [digit_char n] else str_nat (n div 10) @ [digit_char (n mod 10)])"
  by pat_completeness auto
termination
  by (relation "measure (\<lambda>n. n)") auto

declare str_nat.simps [simp del]

definition str_int :: "int \<Rightarrow> string" where
  "str_int i = (if i < 0 then ''-'' @ str_nat (nat (- i)) else str_nat (nat i))"

text \<open>\<^verbatim>\<open>str(v)\<close>, which is also what an f-string writes for \<^verbatim>\<open>{v}\<close>.\<close>

fun py_str :: "builtins \<Rightarrow> json \<Rightarrow> string" where
  "py_str py JNull = ''None''"
| "py_str py (JBool b) = (if b then ''True'' else ''False'')"
| "py_str py (JInt n) = str_int n"
| "py_str py (JStr s) = s"
| "py_str py v = repr py v"

text \<open>\<^verbatim>\<open>int(v)\<close>: a float is truncated towards zero.\<close>

fun py_int :: "builtins \<Rightarrow> json \<Rightarrow> error + int" where
  "py_int py (JBool b) = Inr (if b then 1 else 0)"
| "py_int py (JInt n) = Inr n"
| "py_int py (JFloat x) = Inr (if 0 \<le> x then \<lfloor>x\<rfloor> else \<lceil>x\<rceil>)"
| "py_int py (JStr s) = (case int_of_str py s of Some n \<Rightarrow> Inr n | None \<Rightarrow> Inl ValueError)"
| "py_int py _ = Inl TypeError"

text \<open>\<^verbatim>\<open>s.strip()\<close> removes white space at both ends, \<^verbatim>\<open>s.strip(cs)\<close> the
  characters of \<open>cs\<close>. The white space below U+0100 is listed.\<close>

definition whitespace :: string where
  "whitespace = [CHR 0x09, CHR 0x0A, CHR 0x0B, CHR 0x0C, CHR 0x0D, CHR 0x1C, CHR 0x1D,
     CHR 0x1E, CHR 0x1F, CHR 0x20, CHR 0x85, CHR 0xA0]"

definition py_strip_chars :: "string \<Rightarrow> string \<Rightarrow> string" where
  "py_strip_chars cs s =
     rev (dropWhile (\<lambda>c. c \<in> set cs) (rev (dropWhile (\<lambda>c. c \<in> set cs) s)))"

definition py_strip :: "string \<Rightarrow> string" where
  "py_strip s = py_strip_chars whitespace s"

text \<open>\<^verbatim>\<open>sep.join(xs)\<close>.\<close>

fun py_join :: "string \<Rightarrow> string list \<Rightarrow> string" where
  "py_join sep [] = []"
| "py_join sep [x] = x"
| "py_join sep (x # y # ys) = x @ sep @ py_join sep (y # ys)"

text \<open>\<^verbatim>\<open>dt.strftime("%Y-%m-%d %H:%M")\<close>, as CPython gives it on glibc: the year is
  its decimal numeral with no filling (year 999 is printed as 999), the month, the day,
  the hour and the minute are filled with zeros on the left to two digits.\<close>

definition zpad :: "nat \<Rightarrow> nat \<Rightarrow> string" where
  "zpad w n = replicate (w - length (str_nat n)) CHR ''0'' @ str_nat n"

definition strftime_ymd_hm :: "datetime \<Rightarrow> string" where
  "strftime_ymd_hm dt =
     str_nat (dt_year dt) @ ''-'' @ zpad 2 (dt_month dt) @ ''-'' @ zpad 2 (dt_day dt)
       @ '' '' @ zpad 2 (dt_hour dt) @ '':'' @ zpad 2 (dt_minute dt)"

section \<open>The weather code table\<close>

definition WMO_TEXT :: "(int \<times> string) list" where
  "WMO_TEXT =
    [(0, ''Clear sky''),
     (1, ''Mainly clear''), (2, ''Partly cloudy''), (3, ''Overcast''),
     (45, ''Fog''), (48, ''Depositing rime fog''),
     (51, ''Light drizzle''), (53, ''Moderate drizzle''), (55, ''Dense drizzle''),
     (56, ''Light freezing drizzle''), (57, ''Dense freezing drizzle''),
     (61, ''Slight rain''), (63, ''Moderate rain''), (65, ''Heavy rain''),
     (66, ''Light freezing rain''), (67, ''Heavy freezing rain''),
     (71, ''Slight snow''), (73, ''Moderate snow''), (75, ''Heavy snow''),
     (77, ''Snow grains''),
     (80, ''Slight rain showers''), (81, ''Moderate rain showers''),
     (82, ''Violent rain showers''),
     (85, ''Slight snow showers''), (86, ''Heavy snow showers''),
     (95, ''Thunderstorm''), (96, ''Thunderstorm with slight hail''),
     (99, ''Thunderstorm with heavy hail'')]"

text \<open>\<^verbatim>\<open>WMO_TEXT.get(code, f"WMO {code}")\<close>\<close>

definition wmo_desc :: "int \<Rightarrow> string" where
  "wmo_desc code =
     (case map_of WMO_TEXT code of Some d \<Rightarrow> d | None \<Rightarrow> ''WMO '' @ str_int code)"

section \<open>The two clients\<close>

fun get_json :: "http_outcome \<Rightarrow> error + json" where
  "get_json Transport_failure = Inl RuntimeError"
| "get_json (Http_response status body) =
     (if status \<noteq> 200 then Inl RuntimeError
      else case body of None \<Rightarrow> Inl RuntimeError | Some j \<Rightarrow> Inr j)"

definition geocode_params :: "string \<Rightarrow> string \<Rightarrow> (string \<times> json) list" where
  "geocode_params place language =
     [(''name'', JStr place), (''count'', JInt 1), (''language'', JStr language),
      (''format'', JStr ''json'')]"

definition geocode_url :: "builtins \<Rightarrow> string \<Rightarrow> string \<Rightarrow> string" where
  "geocode_url py place language =
     ''https://geocoding-api.open-meteo.com/v1/search?''
       @ urlencode py (geocode_params place language)"

definition geocode :: "builtins \<Rightarrow> (string \<Rightarrow> http_outcome) \<Rightarrow> string \<Rightarrow> string \<Rightarrow> error + json" where
  "geocode py net place language =
     ebind (get_json (net (geocode_url py place language))) (\<lambda>data.
     ebind (py_get data ''results'' JNull) (\<lambda>found.
     let results = (if truthy found then found else JArr []) in
     if \<not> truthy results then Inr JNull
     else
       ebind (py_index results 0) (\<lambda>r.
       ebind (py_get r ''name'' JNull) (\<lambda>name.
       ebind (py_get r ''country'' JNull) (\<lambda>country.
       ebind (py_item r ''latitude'') (\<lambda>lat.
       ebind (py_item r ''longitude'') (\<lambda>lon.
       ebind (py_get r ''timezone'' (JStr ''auto'')) (\<lambda>tz.
       Inr (JObj [(''name'', name), (''country'', country), (''lat'', lat),
                  (''lon'', lon), (''tz'', tz)])))))))))"

definition temp_unit :: "string \<Rightarrow> string" where
  "temp_unit unit = (if unit = ''imperial'' then ''fahrenheit'' else ''celsius'')"

definition wind_unit :: "string \<Rightarrow> string" where
  "wind_unit unit = (if unit = ''imperial'' then ''mph'' else ''kmh'')"

definition forecast_days :: "int \<Rightarrow> int" where
  "forecast_days days = max 1 (min days 16)"

definition fetch_weather_params :: "json \<Rightarrow> json \<Rightarrow> int \<Rightarrow> string \<Rightarrow> json \<Rightarrow> (string \<times> json) list" where
  "fetch_weather_params lat lon days unit tz =
     [(''latitude'', lat),
      (''longitude'', lon),
      (''current_weather'', JStr ''true''),
      (''daily'', JStr ''temperature_2m_max,temperature_2m_min,precipitation_probability_max''),
      (''timezone'', (if truthy tz then tz else JStr ''auto'')),
      (''forecast_days'', JInt (forecast_days days)),
      (''temperature_unit'', JStr (temp_unit unit)),
      (''wind_speed_unit'', JStr (wind_unit unit))]"

definition forecast_url :: "builtins \<Rightarrow> json \<Rightarrow> json \<Rightarrow> int \<Rightarrow> string \<Rightarrow> json \<Rightarrow> string" where
  "forecast_url py lat lon days unit tz =
     ''https://api.open-meteo.com/v1/forecast?''
       @ urlencode py (fetch_weather_params lat lon days unit tz)"

definition fetch_weather ::
  "builtins \<Rightarrow> (string \<Rightarrow> http_outcome) \<Rightarrow> json \<Rightarrow> json \<Rightarrow> int \<Rightarrow> string \<Rightarrow> json \<Rightarrow> error + json" where
  "fetch_weather py net lat lon days unit tz =
     get_json (net (forecast_url py lat lon days unit tz))"

section \<open>The formatter\<close>

definition deg_F :: string where
  "deg_F = [CHR 0xB0, CHR ''F'']"

definition deg_C :: string where
  "deg_C = [CHR 0xB0, CHR ''C'']"

definition u_temp :: "string \<Rightarrow> string" where
  "u_temp unit = (if unit = ''imperial'' then deg_F else deg_C)"

definition u_wind :: "string \<Rightarrow> string" where
  "u_wind unit = (if unit = ''imperial'' then ''mph'' else ''km/h'')"

text \<open>The \<^verbatim>\<open>try\<close> block of \<^verbatim>\<open>format_current\<close>: \<^verbatim>\<open>fromisoformat\<close> raises on
  anything that is not a string and on a string it cannot read; every exception leads
  to \<^verbatim>\<open>str(time_str)\<close>.\<close>

definition when_text :: "builtins \<Rightarrow> json \<Rightarrow> string" where
  "when_text py time_str =
     (case (case time_str of JStr s \<Rightarrow> fromisoformat py s | _ \<Rightarrow> None) of
        Some dt \<Rightarrow> strftime_ymd_hm dt
      | None \<Rightarrow> py_str py time_str)"

definition format_current :: "builtins \<Rightarrow> json \<Rightarrow> string \<Rightarrow> error + string" where
  "format_current py current unit =
     (if \<not> truthy current then Inr ''Current: (no data)''
      else
        ebind (py_get current ''weathercode'' (JInt (- 1))) (\<lambda>wc.
        ebind (py_int py wc) (\<lambda>code.
        let desc = wmo_desc code in
        ebind (py_get current ''temperature'' JNull) (\<lambda>temp.
        ebind (py_get current ''windspeed'' JNull) (\<lambda>wind.
        ebind (py_get current ''time'' JNull) (\<lambda>time_str.
        let when = when_text py time_str in
        Inr (''Current ('' @ when @ ''): '' @ desc @ '', '' @ py_str py temp @ u_temp unit
               @ '', wind '' @ py_str py wind @ '' '' @ u_wind unit)))))))"

text \<open>The conditional of the loop body: the clause for the chance of rain.\<close>

definition rain_clause :: "builtins \<Rightarrow> json \<Rightarrow> nat \<Rightarrow> error + string" where
  "rain_clause py pop i =
     ebind (py_len pop) (\<lambda>n.
       if i < n then
         ebind (py_index pop i) (\<lambda>p.
           if p \<noteq> JNull then Inr (''  (rain prob '' @ py_str py p @ ''%)'') else Inr [])
       else Inr [])"

text \<open>The loop body: the line of day \<open>i\<close>.\<close>

definition daily_line ::
  "builtins \<Rightarrow> json \<Rightarrow> json \<Rightarrow> json \<Rightarrow> json \<Rightarrow> string \<Rightarrow> nat \<Rightarrow> error + string" where
  "daily_line py dates tmin tmax pop ut i =
     ebind (py_index dates i) (\<lambda>d.
     ebind (py_index tmin i) (\<lambda>lo.
     ebind (py_index tmax i) (\<lambda>hi.
     ebind (rain_clause py pop i) (\<lambda>rain.
     Inr (''  '' @ py_str py d @ ''  min '' @ py_str py lo @ ut @ '' / max '' @ py_str py hi
            @ ut @ rain)))))"

text \<open>The loop: \<open>lines\<close> is the list built so far, an exception ends it.\<close>

fun daily_loop ::
  "builtins \<Rightarrow> json \<Rightarrow> json \<Rightarrow> json \<Rightarrow> json \<Rightarrow> string \<Rightarrow> nat list \<Rightarrow> string list
     \<Rightarrow> error + string list" where
  "daily_loop py dates tmin tmax pop ut [] lines = Inr lines"
| "daily_loop py dates tmin tmax pop ut (i # rest) lines =
     (case daily_line py dates tmin tmax pop ut i of
        Inl e \<Rightarrow> Inl e
      | Inr l \<Rightarrow> daily_loop py dates tmin tmax pop ut rest (lines @ [l]))"

text \<open>The body of \<^verbatim>\<open>format_daily\<close> after the test for an absent block and up to its
  last statement: the list \<open>lines\<close>.\<close>

definition format_daily_lines :: "builtins \<Rightarrow> json \<Rightarrow> string \<Rightarrow> int \<Rightarrow> error + string list" where
  "format_daily_lines py daily unit days =
     ebind (py_get daily ''time'' (JArr [])) (\<lambda>dates.
     ebind (py_get daily ''temperature_2m_max'' (JArr [])) (\<lambda>tmax.
     ebind (py_get daily ''temperature_2m_min'' (JArr [])) (\<lambda>tmin.
     ebind (py_get daily ''precipitation_probability_max'' (JArr [])) (\<lambda>pop.
     ebind (py_len dates) (\<lambda>n.
     daily_loop py dates tmin tmax pop (u_temp unit) (py_range (min days (int n)))
       [''Forecast:''])))))"

definition format_daily :: "builtins \<Rightarrow> json \<Rightarrow> string \<Rightarrow> int \<Rightarrow> error + string" where
  "format_daily py daily unit days =
     (if \<not> truthy daily then Inr ''Forecast: (no data)''
      else ebind (format_daily_lines py daily unit days) (\<lambda>lines.
             Inr (py_join [CHR 0x0A] lines)))"

section \<open>The driver\<close>

record args =
  place :: string
  days :: int
  unit :: string
  lang :: string

text \<open>What a run leaves behind: the lines printed on standard output and on the error
  stream, and the value \<^verbatim>\<open>main\<close> returns or the exception that ends it.\<close>

record run =
  stdout :: "string list"
  stderr :: "string list"
  result :: "error + int"

definition not_found_message :: "string \<Rightarrow> string" where
  "not_found_message p =
     ''Could not find a place named '' @ [CHR 0x27] @ p @ [CHR 0x27]
       @ ''. Try a more specific name.''"

definition header_line :: "builtins \<Rightarrow> json \<Rightarrow> error + string" where
  "header_line py wh =
     ebind (py_item wh ''name'') (\<lambda>name.
     ebind (py_get wh ''country'' (JStr [])) (\<lambda>country.
     let header = py_strip_chars '','' (py_strip (py_str py name @ '', '' @ py_str py country)) in
     ebind (py_item wh ''lat'') (\<lambda>lat.
     ebind (py_item wh ''lon'') (\<lambda>lon.
     Inr (header @ ''  (lat '' @ py_str py lat @ '', lon '' @ py_str py lon @ '')'')))))"

definition main :: "builtins \<Rightarrow> (string \<Rightarrow> http_outcome) \<Rightarrow> args \<Rightarrow> run" where
  "main py net a =
     (case geocode py net (place a) (lang a) of
        Inl e \<Rightarrow> \<lparr>stdout = [], stderr = [], result = Inl e\<rparr>
      | Inr wh \<Rightarrow>
          if \<not> truthy wh then
            \<lparr>stdout = [], stderr = [not_found_message (place a)], result = Inr 2\<rparr>
          else
            (case ebind (py_item wh ''lat'') (\<lambda>lat.
                  ebind (py_item wh ''lon'') (\<lambda>lon.
                  ebind (py_item wh ''tz'') (\<lambda>tz.
                  ebind (fetch_weather py net lat lon (days a) (unit a) tz) (\<lambda>data.
                  ebind (header_line py wh) (\<lambda>h. Inr (data, h)))))) of
               Inl e \<Rightarrow> \<lparr>stdout = [], stderr = [], result = Inl e\<rparr>
             | Inr (data, h) \<Rightarrow>
                 (case ebind (py_get data ''current_weather'' JNull) (\<lambda>c.
                         format_current py c (unit a)) of
                    Inl e \<Rightarrow> \<lparr>stdout = [h], stderr = [], result = Inl e\<rparr>
                  | Inr cl \<Rightarrow>
                      (case ebind (py_get data ''daily'' JNull) (\<lambda>d.
                              format_daily py d (unit a) (days a)) of
                         Inl e \<Rightarrow> \<lparr>stdout = [h, cl], stderr = [], result = Inl e\<rparr>
                       | Inr dl \<Rightarrow> \<lparr>stdout = [h, cl, dl], stderr = [], result = Inr 0\<rparr>))))"

section \<open>Reading a decimal numeral\<close>

text \<open>Not part of the program: the number that a decimal numeral denotes, to state that
  a text holds a given integer.\<close>

definition digit_val :: "char \<Rightarrow> nat" where
  "digit_val c = of_char c - 48"

definition dec_nat :: "string \<Rightarrow> nat" where
  "dec_nat s = foldl (\<lambda>a c. 10 * a + digit_val c) 0 s"

definition dec_int :: "string \<Rightarrow> int" where
  "dec_int s = (case s of [] \<Rightarrow> 0 | c # r \<Rightarrow> if c = CHR ''-'' then - int (dec_nat r) else int (dec_nat s))"

definition is_digit :: "char \<Rightarrow> bool" where
  "is_digit c = (c \<in> set ''0123456789'')"

section \<open>Sample data\<close>

text \<open>A stand-in for the library and two payloads, for the examples.\<close>

definition sample_py :: builtins where
  "sample_py =
     \<lparr>repr = (\<lambda>v. case map_of [(JFloat 21.5, ''21.5''), (JFloat 9, ''9.0''),
                                  (JFloat 52.52, ''52.52''), (JFloat 13.41, ''13.41'')] v of
                     Some t \<Rightarrow> t | None \<Rightarrow> ''?''),
      int_of_str = (\<lambda>s. if s = ''3'' then Some 3 else None),
      fromisoformat = (\<lambda>s. if s = ''2024-01-05T13:07''
         then Some \<lparr>dt_year = 2024, dt_month = 1, dt_day = 5, dt_hour = 13, dt_minute = 7,
                    dt_second = 0\<rparr>
         else if s = ''0999-01-05T13:07''
         then Some \<lparr>dt_year = 999, dt_month = 1, dt_day = 5, dt_hour = 13, dt_minute = 7,
                    dt_second = 0\<rparr>
         else None),
      urlencode = (\<lambda>ps. concat (map fst ps))\<rparr>"

definition sample_current :: "(string \<times> json) list" where
  "sample_current =
     [(''temperature'', JFloat 21.5), (''windspeed'', JFloat 9), (''weathercode'', JInt 3),
      (''time'', JStr ''2024-01-05T13:07'')]"

definition sample_daily :: "(string \<times> json) list" where
  "sample_daily =
     [(''time'', JArr [JStr ''2024-01-05'', JStr ''2024-01-06'', JStr ''2024-01-07'']),
      (''temperature_2m_max'', JArr [JFloat 21.5, JFloat 9, JFloat 21.5]),
      (''temperature_2m_min'', JArr [JFloat 9, JInt 3, JFloat 9]),
      (''precipitation_probability_max'', JArr [JInt 40, JNull])]"



definition sample_daily_short :: "(string \<times> json) list" where
  "sample_daily_short =
     [(''time'', JArr [JStr ''2024-01-05'', JStr ''2024-01-06'']),
      (''temperature_2m_max'', JArr [JFloat 21.5, JFloat 9]),
      (''temperature_2m_min'', JArr [JFloat 9])]"

definition sample_daily_long :: "(string \<times> json) list" where
  "sample_daily_long =
     [(''time'', JArr (replicate 17 (JStr ''2024-01-05''))),
      (''temperature_2m_max'', JArr (replicate 17 (JInt 3))),
      (''temperature_2m_min'', JArr (replicate 17 (JInt 3)))]"

definition sample_forecast :: json where
  "sample_forecast = JObj [(''current_weather'', JObj sample_current), (''daily'', JObj sample_daily)]"

definition sample_args :: "string \<Rightarrow> args" where
  "sample_args p = \<lparr>place = p, days = 3, unit = ''metric'', lang = ''en''\<rparr>"

text \<open>Three answers of the network: no result; Berlin with its country; Berlin with no
  country in the result.\<close>

definition net_empty :: "string \<Rightarrow> http_outcome" where
  "net_empty url = Http_response 200 (Some (JObj [(''generationtime_ms'', JFloat 9)]))"

definition net_berlin :: "string \<Rightarrow> http_outcome" where
  "net_berlin url =
     (if url = geocode_url sample_py ''Berlin'' ''en'' then
        Http_response 200 (Some (JObj [(''results'', JArr [JObj
          [(''name'', JStr ''Berlin''), (''latitude'', JFloat 52.52),
           (''longitude'', JFloat 13.41), (''country'', JStr ''Germany''),
           (''timezone'', JStr ''Europe/Berlin'')]])]))
      else Http_response 200 (Some sample_forecast))"

definition net_no_country :: "string \<Rightarrow> http_outcome" where
  "net_no_country url =
     (if url = geocode_url sample_py ''Berlin'' ''en'' then
        Http_response 200 (Some (JObj [(''results'', JArr [JObj
          [(''name'', JStr ''Berlin''), (''latitude'', JFloat 52.52),
           (''longitude'', JFloat 13.41), (''timezone'', JStr ''Europe/Berlin'')]])]))
      else Http_response 200 (Some sample_forecast))"

section \<open>Basic facts\<close>

lemma ebind_Inl [simp]: "ebind (Inl e) f = Inl e"
  by (simp add: ebind_def)

lemma ebind_Inr [simp]: "ebind (Inr x) f = f x"
  by (simp add: ebind_def)

subsection \<open>Decimal numerals\<close>

lemma digit_char_cases:
  "d < 10 \<Longrightarrow>
     d = 0 \<or> d = 1 \<or> d = 2 \<or> d = 3 \<or> d = 4 \<or> d = 5 \<or> d = 6 \<or> d = 7 \<or> d = 8
       \<or> d = (9::nat)"
  by arith

lemma is_digit_digit_char: "d < 10 \<Longrightarrow> is_digit (digit_char d)"
  using digit_char_cases [of d] by (auto simp: is_digit_def digit_char_def)

lemma digit_val_digit_char: "d < 10 \<Longrightarrow> digit_val (digit_char d) = d"
  using digit_char_cases [of d] by (auto simp: digit_val_def digit_char_def)

lemma str_nat_digits: "\<forall>c \<in> set (str_nat n). is_digit c"
proof (induction n rule: str_nat.induct)
  case (1 n)
  show ?case
  proof (cases "n < 10")
    case True
    then show ?thesis by (simp add: str_nat.simps [of n] is_digit_digit_char)
  next
    case False
    with 1 show ?thesis by (simp add: str_nat.simps [of n] is_digit_digit_char)
  qed
qed

lemma str_nat_not_Nil: "str_nat n \<noteq> []"
  by (simp add: str_nat.simps [of n])

lemma dec_nat_snoc: "dec_nat (s @ [c]) = 10 * dec_nat s + digit_val c"
  by (simp add: dec_nat_def)

lemma dec_nat_str_nat: "dec_nat (str_nat n) = n"
proof (induction n rule: str_nat.induct)
  case (1 n)
  show ?case
  proof (cases "n < 10")
    case True
    then show ?thesis by (simp add: str_nat.simps [of n] dec_nat_def digit_val_digit_char)
  next
    case False
    with 1 show ?thesis by (simp add: str_nat.simps [of n] dec_nat_snoc digit_val_digit_char)
  qed
qed

lemma hd_str_nat_not_minus: "hd (str_nat n) \<noteq> CHR ''-''"
proof -
  have "is_digit (hd (str_nat n))"
    using str_nat_digits [of n] str_nat_not_Nil [of n] by (cases "str_nat n") auto
  then show ?thesis by (auto simp: is_digit_def)
qed

lemma dec_int_str_int: "dec_int (str_int i) = i"
proof (cases "i < 0")
  case True
  then show ?thesis by (simp add: dec_int_def str_int_def dec_nat_str_nat)
next
  case False
  obtain c r where cr: "str_nat (nat i) = c # r"
    using str_nat_not_Nil [of "nat i"] by (cases "str_nat (nat i)") auto
  have "c \<noteq> CHR ''-''" using hd_str_nat_not_minus [of "nat i"] cr by simp
  with False cr show ?thesis
    using dec_nat_str_nat [of "nat i"] by (simp add: dec_int_def str_int_def)
qed









subsection \<open>The table and the formatter\<close>

lemma distinct_WMO: "distinct (map fst WMO_TEXT)"
  by (simp add: WMO_TEXT_def)




lemma format_current_eq:
  assumes "kvs \<noteq> []"
    and "py_int py (dict_get kvs ''weathercode'' (JInt (- 1))) = Inr code"
  shows "format_current py (JObj kvs) u =
    Inr (''Current ('' @ when_text py (dict_get kvs ''time'' JNull) @ ''): '' @ wmo_desc code
          @ '', '' @ py_str py (dict_get kvs ''temperature'' JNull) @ u_temp u
          @ '', wind '' @ py_str py (dict_get kvs ''windspeed'' JNull) @ '' '' @ u_wind u)"
  using assms by (simp add: format_current_def)

lemma rain_clause_no_IndexError: "rain_clause py pop i \<noteq> Inl IndexError"
  by (cases pop) (auto simp: rain_clause_def)

lemma rain_clause_Inr:
  assumes "rain_clause py pop i = Inr r"
  shows "(r \<noteq> []) = (\<exists>n p. py_len pop = Inr n \<and> i < n \<and> py_index pop i = Inr p \<and> p \<noteq> JNull)"
    and "r \<noteq> [] \<Longrightarrow> \<exists>p. py_index pop i = Inr p \<and> r = ''  (rain prob '' @ py_str py p @ ''%)''"
  using assms by (cases pop; auto simp: rain_clause_def split: if_splits)+

lemma rain_clause_JArr:
  "rain_clause py (JArr ps) i =
     Inr (if i < length ps \<and> ps ! i \<noteq> JNull then ''  (rain prob '' @ py_str py (ps ! i) @ ''%)'' else [])"
  by (simp add: rain_clause_def)

lemma daily_line_Inr:
  assumes "daily_line py dates tmin tmax pop ut i = Inr l"
  shows "\<exists>dt lo hi r. py_index dates i = Inr dt \<and> py_index tmin i = Inr lo
           \<and> py_index tmax i = Inr hi \<and> rain_clause py pop i = Inr r
           \<and> l = ''  '' @ py_str py dt @ ''  min '' @ py_str py lo @ ut @ '' / max ''
                  @ py_str py hi @ ut @ r"
  using assms
  by (auto simp: daily_line_def ebind_def split: sum.splits)

subsection \<open>The display loop\<close>

lemma daily_loop_Inr:
  "daily_loop py dates tmin tmax pop ut js acc = Inr ls \<Longrightarrow>
     length ls = length acc + length js \<and> take (length acc) ls = acc
     \<and> (\<forall>k < length js. daily_line py dates tmin tmax pop ut (js ! k) = Inr (ls ! (length acc + k)))"
proof (induction js arbitrary: acc)
  case Nil
  then show ?case by simp
next
  case (Cons j js)
  from Cons.prems obtain l where l: "daily_line py dates tmin tmax pop ut j = Inr l"
    and rest: "daily_loop py dates tmin tmax pop ut js (acc @ [l]) = Inr ls"
    by (auto split: sum.splits)
  from Cons.IH [OF rest] have len: "length ls = length acc + 1 + length js"
    and tk: "take (length acc + 1) ls = acc @ [l]"
    and nth: "\<forall>k < length js. daily_line py dates tmin tmax pop ut (js ! k) = Inr (ls ! (length acc + 1 + k))"
    by simp_all
  have tk': "take (length acc) ls = acc"
  proof -
    have "take (length acc) (take (length acc + 1) ls) = take (length acc) (acc @ [l])"
      by (simp only: tk)
    then show ?thesis by simp
  qed
  have l_at: "ls ! length acc = l"
  proof -
    have "take (length acc + 1) ls ! length acc = (acc @ [l]) ! length acc" by (simp only: tk)
    then show ?thesis by simp
  qed
  have "\<forall>k < length (j # js). daily_line py dates tmin tmax pop ut ((j # js) ! k) = Inr (ls ! (length acc + k))"
  proof (intro allI impI)
    fix k assume k: "k < length (j # js)"
    show "daily_line py dates tmin tmax pop ut ((j # js) ! k) = Inr (ls ! (length acc + k))"
    proof (cases k)
      case 0
      then show ?thesis using l l_at by simp
    next
      case (Suc k')
      with k have "k' < length js" by simp
      with nth have "daily_line py dates tmin tmax pop ut (js ! k') = Inr (ls ! (length acc + 1 + k'))"
        by blast
      with Suc show ?thesis by simp
    qed
  qed
  with len tk' show ?case by simp
qed

lemma format_daily_lines_Inr:
  assumes "format_daily_lines py (JObj kvs) u d = Inr ls"
  shows "\<exists>n days. py_len (dict_get kvs ''time'' (JArr [])) = Inr n
           \<and> ls = ''Forecast:'' # days
           \<and> length days = nat (min d (int n))
           \<and> (\<forall>i < length days.
                 daily_line py (dict_get kvs ''time'' (JArr []))
                   (dict_get kvs ''temperature_2m_min'' (JArr []))
                   (dict_get kvs ''temperature_2m_max'' (JArr []))
                   (dict_get kvs ''precipitation_probability_max'' (JArr [])) (u_temp u) i
                 = Inr (days ! i))"
proof -
  let ?dates = "dict_get kvs ''time'' (JArr [])"
  let ?tmin = "dict_get kvs ''temperature_2m_min'' (JArr [])"
  let ?tmax = "dict_get kvs ''temperature_2m_max'' (JArr [])"
  let ?pop = "dict_get kvs ''precipitation_probability_max'' (JArr [])"
  from assms obtain n where n: "py_len ?dates = Inr n"
    and loop: "daily_loop py ?dates ?tmin ?tmax ?pop (u_temp u) (py_range (min d (int n))) [''Forecast:''] = Inr ls"
    by (cases "py_len ?dates") (auto simp: format_daily_lines_def)
  let ?m = "nat (min d (int n))"
  from daily_loop_Inr [OF loop]
  have len: "length ls = 1 + ?m" and tk: "take 1 ls = [''Forecast:'']"
    and nth: "\<forall>k < ?m. daily_line py ?dates ?tmin ?tmax ?pop (u_temp u) ([0..<?m] ! k) = Inr (ls ! (1 + k))"
    by (simp_all add: py_range_def)
  from len tk obtain days where ls: "ls = ''Forecast:'' # days"
    by (cases ls) auto
  with len have ld: "length days = ?m" by simp
  have "\<forall>i < length days. daily_line py ?dates ?tmin ?tmax ?pop (u_temp u) i = Inr (days ! i)"
  proof (intro allI impI)
    fix i assume "i < length days"
    with ld have i: "i < ?m" by simp
    with nth have "daily_line py ?dates ?tmin ?tmax ?pop (u_temp u) ([0..<?m] ! i) = Inr (ls ! (1 + i))"
      by blast
    with i ls show "daily_line py ?dates ?tmin ?tmax ?pop (u_temp u) i = Inr (days ! i)" by simp
  qed
  with n ls ld show ?thesis by blast
qed

lemma format_daily_Inr:
  assumes "kvs \<noteq> []" and "format_daily py (JObj kvs) u d = Inr s"
  shows "\<exists>ls. format_daily_lines py (JObj kvs) u d = Inr ls \<and> s = py_join [CHR 0x0A] ls"
  using assms
  by (cases "format_daily_lines py (JObj kvs) u d") (auto simp: format_daily_def)

lemma format_daily_suffixes:
  assumes "kvs \<noteq> []" and "format_daily py (JObj kvs) u d = Inr s"
  shows "\<exists>n per_day. py_len (dict_get kvs ''time'' (JArr [])) = Inr n
           \<and> s = py_join [CHR 0x0A] (''Forecast:'' # per_day)
           \<and> length per_day = nat (min d (int n))
           \<and> (\<forall>i < length per_day. \<exists>dt lo hi r.
                 py_index (dict_get kvs ''time'' (JArr [])) i = Inr dt
                 \<and> py_index (dict_get kvs ''temperature_2m_min'' (JArr [])) i = Inr lo
                 \<and> py_index (dict_get kvs ''temperature_2m_max'' (JArr [])) i = Inr hi
                 \<and> rain_clause py (dict_get kvs ''precipitation_probability_max'' (JArr [])) i
                     = Inr r
                 \<and> per_day ! i = ''  '' @ py_str py dt @ ''  min '' @ py_str py lo @ u_temp u
                       @ '' / max '' @ py_str py hi @ u_temp u @ r)"
proof -
  from format_daily_Inr [OF assms] obtain ls
    where ls: "format_daily_lines py (JObj kvs) u d = Inr ls" and s: "s = py_join [CHR 0x0A] ls"
    by blast
  from format_daily_lines_Inr [OF ls] obtain n per_day
    where n: "py_len (dict_get kvs ''time'' (JArr [])) = Inr n"
      and eq: "ls = ''Forecast:'' # per_day"
      and len: "length per_day = nat (min d (int n))"
      and line: "\<forall>i < length per_day.
                 daily_line py (dict_get kvs ''time'' (JArr []))
                   (dict_get kvs ''temperature_2m_min'' (JArr []))
                   (dict_get kvs ''temperature_2m_max'' (JArr []))
                   (dict_get kvs ''precipitation_probability_max'' (JArr [])) (u_temp u) i
                 = Inr (per_day ! i)"
    by blast
  have "\<forall>i < length per_day. \<exists>dt lo hi r.
                 py_index (dict_get kvs ''time'' (JArr [])) i = Inr dt
                 \<and> py_index (dict_get kvs ''temperature_2m_min'' (JArr [])) i = Inr lo
                 \<and> py_index (dict_get kvs ''temperature_2m_max'' (JArr [])) i = Inr hi
                 \<and> rain_clause py (dict_get kvs ''precipitation_probability_max'' (JArr [])) i
                     = Inr r
                 \<and> per_day ! i = ''  '' @ py_str py dt @ ''  min '' @ py_str py lo @ u_temp u
                       @ '' / max '' @ py_str py hi @ u_temp u @ r"
  proof (intro allI impI)
    fix i assume "i < length per_day"
    with line have "daily_line py (dict_get kvs ''time'' (JArr []))
                   (dict_get kvs ''temperature_2m_min'' (JArr []))
                   (dict_get kvs ''temperature_2m_max'' (JArr []))
                   (dict_get kvs ''precipitation_probability_max'' (JArr [])) (u_temp u) i
                 = Inr (per_day ! i)" by blast
    from daily_line_Inr [OF this]
    show "\<exists>dt lo hi r.
                 py_index (dict_get kvs ''time'' (JArr [])) i = Inr dt
                 \<and> py_index (dict_get kvs ''temperature_2m_min'' (JArr [])) i = Inr lo
                 \<and> py_index (dict_get kvs ''temperature_2m_max'' (JArr [])) i = Inr hi
                 \<and> rain_clause py (dict_get kvs ''precipitation_probability_max'' (JArr [])) i
                     = Inr r
                 \<and> per_day ! i = ''  '' @ py_str py dt @ ''  min '' @ py_str py lo @ u_temp u
                       @ '' / max '' @ py_str py hi @ u_temp u @ r"
      by blast
  qed
  with n s eq len show ?thesis by blast
qed

lemma format_daily_lines_not_dict:
  "(\<And>kvs. v \<noteq> JObj kvs) \<Longrightarrow> format_daily_lines py v u d = Inl AttributeError"
  by (cases v) (auto simp: format_daily_lines_def)

lemma format_daily_no_days:
  assumes "d \<le> 0" and "format_daily py v u d = Inr s"
  shows "s = ''Forecast:'' \<or> s = ''Forecast: (no data)''"
proof (cases "truthy v")
  case False
  with assms(2) show ?thesis by (simp add: format_daily_def)
next
  case True
  with assms(2) obtain ls where ls: "format_daily_lines py v u d = Inr ls"
    and s: "s = py_join [CHR 0x0A] ls"
    by (cases "format_daily_lines py v u d") (auto simp: format_daily_def)
  from ls obtain kvs where v: "v = JObj kvs"
    using format_daily_lines_not_dict [of v py u d] by (cases v) auto
  from ls v format_daily_lines_Inr [of py kvs u d ls] obtain n per_day
    where "ls = ''Forecast:'' # per_day" and "length per_day = nat (min d (int n))"
    by auto
  with assms(1) have "ls = [''Forecast:'']" by simp
  with s show ?thesis by simp
qed

subsection \<open>The driver\<close>

lemma geocode_Inr_cases:
  "geocode py net p l = Inr wh \<Longrightarrow> wh = JNull \<or> (\<exists>kvs. wh = JObj kvs \<and> kvs \<noteq> [])"
  by (auto simp: geocode_def ebind_def Let_def split: sum.splits if_splits)

lemma geocode_not_found:
  assumes "net (geocode_url py p l) = Http_response 200 (Some (JObj kvs))"
    and "\<not> truthy (dict_get kvs ''results'' JNull)"
  shows "geocode py net p l = Inr JNull"
  using assms by (simp add: geocode_def)

lemma main_not_found:
  "geocode py net (place a) (lang a) = Inr JNull \<Longrightarrow>
     main py net a = \<lparr>stdout = [], stderr = [not_found_message (place a)], result = Inr 2\<rparr>"
  by (simp add: main_def)

lemma main_result: "result (main py net a) = Inr c \<Longrightarrow> c = 0 \<or> c = 2"
  by (auto simp: main_def split: sum.splits prod.splits if_splits)

lemma main_two_iff:
  "(result (main py net a) = Inr 2) = (geocode py net (place a) (lang a) = Inr JNull)"
proof (cases "geocode py net (place a) (lang a)")
  case (Inl e)
  then show ?thesis by (simp add: main_def)
next
  case (Inr wh)
  from geocode_Inr_cases [OF Inr] show ?thesis
  proof
    assume "wh = JNull"
    with Inr show ?thesis by (simp add: main_def)
  next
    assume "\<exists>kvs. wh = JObj kvs \<and> kvs \<noteq> []"
    then obtain kvs where "wh = JObj kvs" "kvs \<noteq> []" by blast
    with Inr show ?thesis
      by (simp add: main_def split: sum.splits prod.splits)
  qed
qed

lemma main_zero_iff:
  "(result (main py net a) = Inr 0) = (length (stdout (main py net a)) = 3)"
  by (simp add: main_def split: sum.splits prod.splits)

lemma main_zero_stderr: "result (main py net a) = Inr 0 \<Longrightarrow> stderr (main py net a) = []"
  by (auto simp: main_def split: sum.splits prod.splits if_splits)

section \<open>The claims\<close>

text \<open>
  Claim C1. For every integer \<open>d\<close> given as \<^verbatim>\<open>days\<close> (negative, zero and above 16
  included), the value that \<^verbatim>\<open>fetch_weather\<close> stores under \<^verbatim>\<open>forecast_days\<close> in the
  request parameters is \<open>d\<close> clamped into the closed range from 1 to 16: 1 below 1, 16
  above 16, \<open>d\<close> itself otherwise.
\<close>

theorem forecast_days_clamped:
  "map_of (fetch_weather_params lat lon d u tz) ''forecast_days''
     = Some (JInt (if d < 1 then 1 else if 16 < d then 16 else d))
   \<and> 1 \<le> forecast_days d \<and> forecast_days d \<le> 16"
  by (simp add: fetch_weather_params_def forecast_days_def)

theorem forecast_days_clamped_witness:
  "map_of (fetch_weather_params (JFloat 52.5) (JFloat 13.4) (- 3) ''metric'' (JStr ''Europe/Berlin'')) ''forecast_days'' = Some (JInt 1)
   \<and> map_of (fetch_weather_params (JFloat 52.5) (JFloat 13.4) 0 ''metric'' (JStr ''Europe/Berlin'')) ''forecast_days'' = Some (JInt 1)
   \<and> map_of (fetch_weather_params (JFloat 52.5) (JFloat 13.4) 7 ''metric'' (JStr ''Europe/Berlin'')) ''forecast_days'' = Some (JInt 7)
   \<and> map_of (fetch_weather_params (JFloat 52.5) (JFloat 13.4) 40 ''metric'' (JStr ''Europe/Berlin'')) ''forecast_days'' = Some (JInt 16)"
  using forecast_days_clamped [of "JFloat 52.5" "JFloat 13.4" "- 3" "''metric''" "JStr ''Europe/Berlin''"]
    forecast_days_clamped [of "JFloat 52.5" "JFloat 13.4" 0 "''metric''" "JStr ''Europe/Berlin''"]
    forecast_days_clamped [of "JFloat 52.5" "JFloat 13.4" 7 "''metric''" "JStr ''Europe/Berlin''"]
    forecast_days_clamped [of "JFloat 52.5" "JFloat 13.4" 40 "''metric''" "JStr ''Europe/Berlin''"]
  by simp

text \<open>
  Claim C2. The units asked of the forecast service and the suffixes printed agree for
  every unit system. \<^verbatim>\<open>fetch_weather\<close> stores \<open>temp_unit u\<close> and \<open>wind_unit u\<close> in
  the request; \<^verbatim>\<open>format_current\<close> and the line of a day in \<^verbatim>\<open>format_daily\<close> write
  \<open>u_temp u\<close> after every temperature and \<open>u_wind u\<close> after the wind speed. For metric
  these are celsius, kmh, the degree sign with C, and km/h; for imperial fahrenheit, mph,
  the degree sign with F, and mph. For any unit text, celsius is requested exactly when
  the suffix is degree C and fahrenheit exactly when it is degree F. Every text that
  \<^verbatim>\<open>format_daily\<close> returns for a block that is present is the header and one line for
  each index of \<^verbatim>\<open>range(min(d, len(dates)))\<close>, and each of these lines carries
  \<open>u_temp u\<close> after the minimum and after the maximum of its day.
\<close>

theorem units_agree:
  "map_of (fetch_weather_params lat lon d u tz) ''temperature_unit'' = Some (JStr (temp_unit u))
   \<and> map_of (fetch_weather_params lat lon d u tz) ''wind_speed_unit'' = Some (JStr (wind_unit u))
   \<and> temp_unit ''metric'' = ''celsius'' \<and> wind_unit ''metric'' = ''kmh''
   \<and> u_temp ''metric'' = [CHR 0xB0, CHR ''C''] \<and> u_wind ''metric'' = ''km/h''
   \<and> temp_unit ''imperial'' = ''fahrenheit'' \<and> wind_unit ''imperial'' = ''mph''
   \<and> u_temp ''imperial'' = [CHR 0xB0, CHR ''F''] \<and> u_wind ''imperial'' = ''mph''
   \<and> (temp_unit u = ''celsius'') = (u_temp u = [CHR 0xB0, CHR ''C''])
   \<and> (temp_unit u = ''fahrenheit'') = (u_temp u = [CHR 0xB0, CHR ''F''])
   \<and> (wind_unit u = ''kmh'') = (u_wind u = ''km/h'')
   \<and> (wind_unit u = ''mph'') = (u_wind u = ''mph'')
   \<and> (kvs \<noteq> [] \<and> py_int py (dict_get kvs ''weathercode'' (JInt (- 1))) = Inr code \<longrightarrow>
        format_current py (JObj kvs) u =
          Inr (''Current ('' @ when_text py (dict_get kvs ''time'' JNull) @ ''): ''
                @ wmo_desc code @ '', ''
                @ py_str py (dict_get kvs ''temperature'' JNull) @ u_temp u
                @ '', wind '' @ py_str py (dict_get kvs ''windspeed'' JNull) @ '' '' @ u_wind u))
   \<and> (daily_line py dates tmin tmax pop (u_temp u) i = Inr l \<longrightarrow>
        (\<exists>dt lo hi r. py_index dates i = Inr dt \<and> py_index tmin i = Inr lo
           \<and> py_index tmax i = Inr hi \<and> rain_clause py pop i = Inr r
           \<and> l = ''  '' @ py_str py dt @ ''  min '' @ py_str py lo @ u_temp u @ '' / max ''
                  @ py_str py hi @ u_temp u @ r))
   \<and> (dkvs \<noteq> [] \<and> format_daily py (JObj dkvs) u d = Inr s \<longrightarrow>
        (\<exists>n per_day. py_len (dict_get dkvs ''time'' (JArr [])) = Inr n
           \<and> s = py_join [CHR 0x0A] (''Forecast:'' # per_day)
           \<and> length per_day = nat (min d (int n))
           \<and> (\<forall>i < length per_day. \<exists>dt lo hi r.
                 py_index (dict_get dkvs ''time'' (JArr [])) i = Inr dt
                 \<and> py_index (dict_get dkvs ''temperature_2m_min'' (JArr [])) i = Inr lo
                 \<and> py_index (dict_get dkvs ''temperature_2m_max'' (JArr [])) i = Inr hi
                 \<and> rain_clause py (dict_get dkvs ''precipitation_probability_max'' (JArr [])) i
                     = Inr r
                 \<and> per_day ! i = ''  '' @ py_str py dt @ ''  min '' @ py_str py lo @ u_temp u
                       @ '' / max '' @ py_str py hi @ u_temp u @ r)))"
proof -
  have daily: "dkvs \<noteq> [] \<and> format_daily py (JObj dkvs) u d = Inr s \<longrightarrow>
        (\<exists>n per_day. py_len (dict_get dkvs ''time'' (JArr [])) = Inr n
           \<and> s = py_join [CHR 0x0A] (''Forecast:'' # per_day)
           \<and> length per_day = nat (min d (int n))
           \<and> (\<forall>i < length per_day. \<exists>dt lo hi r.
                 py_index (dict_get dkvs ''time'' (JArr [])) i = Inr dt
                 \<and> py_index (dict_get dkvs ''temperature_2m_min'' (JArr [])) i = Inr lo
                 \<and> py_index (dict_get dkvs ''temperature_2m_max'' (JArr [])) i = Inr hi
                 \<and> rain_clause py (dict_get dkvs ''precipitation_probability_max'' (JArr [])) i
                     = Inr r
                 \<and> per_day ! i = ''  '' @ py_str py dt @ ''  min '' @ py_str py lo @ u_temp u
                       @ '' / max '' @ py_str py hi @ u_temp u @ r))"
    using format_daily_suffixes [of dkvs py u d s] by blast
  have params: "map_of (fetch_weather_params lat lon d u tz) ''temperature_unit'' = Some (JStr (temp_unit u))
     \<and> map_of (fetch_weather_params lat lon d u tz) ''wind_speed_unit'' = Some (JStr (wind_unit u))"
    by (simp add: fetch_weather_params_def)
  have names: "temp_unit ''metric'' = ''celsius'' \<and> wind_unit ''metric'' = ''kmh''
   \<and> u_temp ''metric'' = [CHR 0xB0, CHR ''C''] \<and> u_wind ''metric'' = ''km/h''
   \<and> temp_unit ''imperial'' = ''fahrenheit'' \<and> wind_unit ''imperial'' = ''mph''
   \<and> u_temp ''imperial'' = [CHR 0xB0, CHR ''F''] \<and> u_wind ''imperial'' = ''mph''"
    by (simp add: temp_unit_def wind_unit_def u_temp_def u_wind_def deg_C_def deg_F_def)
  have pairs: "(temp_unit u = ''celsius'') = (u_temp u = [CHR 0xB0, CHR ''C''])
   \<and> (temp_unit u = ''fahrenheit'') = (u_temp u = [CHR 0xB0, CHR ''F''])
   \<and> (wind_unit u = ''kmh'') = (u_wind u = ''km/h'')
   \<and> (wind_unit u = ''mph'') = (u_wind u = ''mph'')"
    by (simp add: temp_unit_def wind_unit_def u_temp_def u_wind_def deg_C_def deg_F_def)
  have cur: "kvs \<noteq> [] \<and> py_int py (dict_get kvs ''weathercode'' (JInt (- 1))) = Inr code \<longrightarrow>
        format_current py (JObj kvs) u =
          Inr (''Current ('' @ when_text py (dict_get kvs ''time'' JNull) @ ''): ''
                @ wmo_desc code @ '', ''
                @ py_str py (dict_get kvs ''temperature'' JNull) @ u_temp u
                @ '', wind '' @ py_str py (dict_get kvs ''windspeed'' JNull) @ '' '' @ u_wind u)"
    using format_current_eq [of kvs py code u] by blast
  have line: "daily_line py dates tmin tmax pop (u_temp u) i = Inr l \<longrightarrow>
        (\<exists>dt lo hi r. py_index dates i = Inr dt \<and> py_index tmin i = Inr lo
           \<and> py_index tmax i = Inr hi \<and> rain_clause py pop i = Inr r
           \<and> l = ''  '' @ py_str py dt @ ''  min '' @ py_str py lo @ u_temp u @ '' / max ''
                  @ py_str py hi @ u_temp u @ r)"
    using daily_line_Inr [of py dates tmin tmax pop "u_temp u" i l] by blast
  from params names pairs cur line daily show ?thesis
    by blast
qed

theorem units_agree_witness:
  "sample_current \<noteq> []
   \<and> py_int sample_py (dict_get sample_current ''weathercode'' (JInt (- 1))) = Inr 3
   \<and> format_current sample_py (JObj sample_current) ''imperial''
       = Inr (''Current (2024-01-05 13:07): Overcast, 21.5'' @ [CHR 0xB0] @ ''F, wind 9.0 mph'')
   \<and> format_current sample_py (JObj sample_current) ''metric''
       = Inr (''Current (2024-01-05 13:07): Overcast, 21.5'' @ [CHR 0xB0] @ ''C, wind 9.0 km/h'')
   \<and> daily_line sample_py (dict_get sample_daily ''time'' JNull)
         (dict_get sample_daily ''temperature_2m_min'' JNull)
         (dict_get sample_daily ''temperature_2m_max'' JNull)
         (dict_get sample_daily ''precipitation_probability_max'' JNull) (u_temp ''metric'') 0
       = Inr (''  2024-01-05  min 9.0'' @ [CHR 0xB0] @ ''C / max 21.5'' @ [CHR 0xB0]
               @ ''C  (rain prob 40%)'')
   \<and> sample_daily \<noteq> []
   \<and> format_daily sample_py (JObj sample_daily) ''imperial'' 2
       = Inr (''Forecast:'' @ [CHR 0x0A]
               @ ''  2024-01-05  min 9.0'' @ [CHR 0xB0] @ ''F / max 21.5'' @ [CHR 0xB0]
               @ ''F  (rain prob 40%)'' @ [CHR 0x0A]
               @ ''  2024-01-06  min 3'' @ [CHR 0xB0] @ ''F / max 9.0'' @ [CHR 0xB0] @ ''F'')
   \<and> format_daily sample_py (JObj sample_daily) ''metric'' 2
       = Inr (''Forecast:'' @ [CHR 0x0A]
               @ ''  2024-01-05  min 9.0'' @ [CHR 0xB0] @ ''C / max 21.5'' @ [CHR 0xB0]
               @ ''C  (rain prob 40%)'' @ [CHR 0x0A]
               @ ''  2024-01-06  min 3'' @ [CHR 0xB0] @ ''C / max 9.0'' @ [CHR 0xB0] @ ''C'')
   \<and> (\<exists>n per_day. py_len (dict_get sample_daily ''time'' (JArr [])) = Inr n
         \<and> ''Forecast:'' @ [CHR 0x0A]
               @ ''  2024-01-05  min 9.0'' @ [CHR 0xB0] @ ''F / max 21.5'' @ [CHR 0xB0]
               @ ''F  (rain prob 40%)'' @ [CHR 0x0A]
               @ ''  2024-01-06  min 3'' @ [CHR 0xB0] @ ''F / max 9.0'' @ [CHR 0xB0] @ ''F''
             = py_join [CHR 0x0A] (''Forecast:'' # per_day)
         \<and> length per_day = nat (min 2 (int n))
         \<and> (\<forall>i < length per_day. \<exists>dt lo hi r.
               py_index (dict_get sample_daily ''time'' (JArr [])) i = Inr dt
               \<and> py_index (dict_get sample_daily ''temperature_2m_min'' (JArr [])) i = Inr lo
               \<and> py_index (dict_get sample_daily ''temperature_2m_max'' (JArr [])) i = Inr hi
               \<and> rain_clause sample_py
                    (dict_get sample_daily ''precipitation_probability_max'' (JArr [])) i = Inr r
               \<and> per_day ! i = ''  '' @ py_str sample_py dt @ ''  min '' @ py_str sample_py lo
                     @ u_temp ''imperial'' @ '' / max '' @ py_str sample_py hi
                     @ u_temp ''imperial'' @ r))"
proof -
  let ?sF = "''Forecast:'' @ [CHR 0x0A]
               @ ''  2024-01-05  min 9.0'' @ [CHR 0xB0] @ ''F / max 21.5'' @ [CHR 0xB0]
               @ ''F  (rain prob 40%)'' @ [CHR 0x0A]
               @ ''  2024-01-06  min 3'' @ [CHR 0xB0] @ ''F / max 9.0'' @ [CHR 0xB0] @ ''F''"
  have ne: "sample_daily \<noteq> []" by code_simp
  have fi: "format_daily sample_py (JObj sample_daily) ''imperial'' 2 = Inr ?sF"
    by code_simp
  have fm: "format_daily sample_py (JObj sample_daily) ''metric'' 2
       = Inr (''Forecast:'' @ [CHR 0x0A]
               @ ''  2024-01-05  min 9.0'' @ [CHR 0xB0] @ ''C / max 21.5'' @ [CHR 0xB0]
               @ ''C  (rain prob 40%)'' @ [CHR 0x0A]
               @ ''  2024-01-06  min 3'' @ [CHR 0xB0] @ ''C / max 9.0'' @ [CHR 0xB0] @ ''C'')"
    by code_simp
  have ex: "\<exists>n per_day. py_len (dict_get sample_daily ''time'' (JArr [])) = Inr n
         \<and> ?sF = py_join [CHR 0x0A] (''Forecast:'' # per_day)
         \<and> length per_day = nat (min 2 (int n))
         \<and> (\<forall>i < length per_day. \<exists>dt lo hi r.
               py_index (dict_get sample_daily ''time'' (JArr [])) i = Inr dt
               \<and> py_index (dict_get sample_daily ''temperature_2m_min'' (JArr [])) i = Inr lo
               \<and> py_index (dict_get sample_daily ''temperature_2m_max'' (JArr [])) i = Inr hi
               \<and> rain_clause sample_py
                    (dict_get sample_daily ''precipitation_probability_max'' (JArr [])) i = Inr r
               \<and> per_day ! i = ''  '' @ py_str sample_py dt @ ''  min '' @ py_str sample_py lo
                     @ u_temp ''imperial'' @ '' / max '' @ py_str sample_py hi
                     @ u_temp ''imperial'' @ r)"
    using ne fi
      units_agree [of _ _ 2 "''imperial''" _ _ sample_py _ _ _ _ _ _ _ sample_daily ?sF]
    by blast
  have h: "sample_current \<noteq> []
     \<and> py_int sample_py (dict_get sample_current ''weathercode'' (JInt (- 1))) = Inr 3"
    by code_simp
  have l: "daily_line sample_py (dict_get sample_daily ''time'' JNull)
         (dict_get sample_daily ''temperature_2m_min'' JNull)
         (dict_get sample_daily ''temperature_2m_max'' JNull)
         (dict_get sample_daily ''precipitation_probability_max'' JNull) (u_temp ''metric'') 0
       = Inr (''  2024-01-05  min 9.0'' @ [CHR 0xB0] @ ''C / max 21.5'' @ [CHR 0xB0]
               @ ''C  (rain prob 40%)'')"
    by code_simp
  have i: "format_current sample_py (JObj sample_current) ''imperial'' =
          Inr (''Current ('' @ when_text sample_py (dict_get sample_current ''time'' JNull) @ ''): ''
                @ wmo_desc 3 @ '', ''
                @ py_str sample_py (dict_get sample_current ''temperature'' JNull) @ u_temp ''imperial''
                @ '', wind '' @ py_str sample_py (dict_get sample_current ''windspeed'' JNull)
                @ '' '' @ u_wind ''imperial'')"
    using h units_agree [of _ _ _ "''imperial''" _ sample_current sample_py 3] by blast
  have m: "format_current sample_py (JObj sample_current) ''metric'' =
          Inr (''Current ('' @ when_text sample_py (dict_get sample_current ''time'' JNull) @ ''): ''
                @ wmo_desc 3 @ '', ''
                @ py_str sample_py (dict_get sample_current ''temperature'' JNull) @ u_temp ''metric''
                @ '', wind '' @ py_str sample_py (dict_get sample_current ''windspeed'' JNull)
                @ '' '' @ u_wind ''metric'')"
    using h units_agree [of _ _ _ "''metric''" _ sample_current sample_py 3] by blast
  have ri: "''Current ('' @ when_text sample_py (dict_get sample_current ''time'' JNull) @ ''): ''
                @ wmo_desc 3 @ '', ''
                @ py_str sample_py (dict_get sample_current ''temperature'' JNull) @ u_temp ''imperial''
                @ '', wind '' @ py_str sample_py (dict_get sample_current ''windspeed'' JNull)
                @ '' '' @ u_wind ''imperial''
            = ''Current (2024-01-05 13:07): Overcast, 21.5'' @ [CHR 0xB0] @ ''F, wind 9.0 mph''"
    by code_simp
  have rm: "''Current ('' @ when_text sample_py (dict_get sample_current ''time'' JNull) @ ''): ''
                @ wmo_desc 3 @ '', ''
                @ py_str sample_py (dict_get sample_current ''temperature'' JNull) @ u_temp ''metric''
                @ '', wind '' @ py_str sample_py (dict_get sample_current ''windspeed'' JNull)
                @ '' '' @ u_wind ''metric''
            = ''Current (2024-01-05 13:07): Overcast, 21.5'' @ [CHR 0xB0] @ ''C, wind 9.0 km/h''"
    by code_simp
  have fc: "format_current sample_py (JObj sample_current) ''imperial''
       = Inr (''Current (2024-01-05 13:07): Overcast, 21.5'' @ [CHR 0xB0] @ ''F, wind 9.0 mph'')
   \<and> format_current sample_py (JObj sample_current) ''metric''
       = Inr (''Current (2024-01-05 13:07): Overcast, 21.5'' @ [CHR 0xB0] @ ''C, wind 9.0 km/h'')"
    using i m ri rm by simp
  from h fc l ne fi fm ex show ?thesis
    by blast
qed

text \<open>
  Claim C3 bounds the number of lines of the days by \<open>min d (len dates)\<close> for every
  day count \<open>d\<close>. For a negative \<open>d\<close> that bound is negative, and the loop renders
  no line of a day: the count is zero, which is above the bound.
\<close>

theorem daily_lines_negative_days:
  "format_daily_lines sample_py (JObj sample_daily) ''metric'' (- 1) = Inr [''Forecast:'']
   \<and> format_daily sample_py (JObj sample_daily) ''metric'' (- 1) = Inr ''Forecast:''
   \<and> py_len (dict_get sample_daily ''time'' (JArr [])) = Inr 3
   \<and> \<not> int (length (tl [''Forecast:''])) \<le> min (- 1) (int 3)"
proof (intro conjI)
  show "format_daily sample_py (JObj sample_daily) ''metric'' (- 1) = Inr ''Forecast:''"
    by code_simp
  show "format_daily_lines sample_py (JObj sample_daily) ''metric'' (- 1) = Inr [''Forecast:'']"
    by code_simp
  show "py_len (dict_get sample_daily ''time'' (JArr [])) = Inr 3" by code_simp
  show "\<not> int (length (tl [''Forecast:''])) \<le> min (- 1) (int 3)" by simp
qed

text \<open>
  Claim C3 as amended. Whatever the daily payload and the day count \<open>d\<close>, when
  \<^verbatim>\<open>format_daily\<close> builds its lines they are the header "Forecast:" and then one line
  for each index of \<^verbatim>\<open>range(min(d, len(dates)))\<close>: their number is
  \<open>max 0 (min d (len dates))\<close>, that is at most \<open>min d (len dates)\<close> for
  \<open>d \<ge> 0\<close> and none for \<open>d < 0\<close>. The line of index \<open>i\<close> ends with the rain clause,
  which is not empty exactly when \<open>i\<close> is below the length of the sequence of
  precipitation probabilities and the value at \<open>i\<close> is not \<^verbatim>\<open>None\<close>. Reading that
  sequence never raises IndexError: it is read at \<open>i\<close> only under the guard
  \<open>i < len(pop)\<close>. A payload that is not a dictionary gives no line at all. The text
  that \<^verbatim>\<open>format_daily\<close> returns for a block that is present is these lines joined by
  newlines.
\<close>

theorem daily_lines_bounded:
  "(format_daily_lines py (JObj kvs) u d = Inr ls \<longrightarrow>
      (\<exists>n per_day. py_len (dict_get kvs ''time'' (JArr [])) = Inr n
         \<and> ls = ''Forecast:'' # per_day
         \<and> int (length per_day) = max 0 (min d (int n))
         \<and> (0 \<le> d \<longrightarrow> int (length per_day) \<le> min d (int n))
         \<and> (d < 0 \<longrightarrow> per_day = [])
         \<and> (\<forall>i < length per_day. \<exists>dt lo hi r.
               rain_clause py (dict_get kvs ''precipitation_probability_max'' (JArr [])) i = Inr r
               \<and> per_day ! i = ''  '' @ py_str py dt @ ''  min '' @ py_str py lo @ u_temp u
                     @ '' / max '' @ py_str py hi @ u_temp u @ r)))
   \<and> ((\<forall>kvs. v \<noteq> JObj kvs) \<longrightarrow> format_daily_lines py v u d = Inl AttributeError)
   \<and> (rain_clause py pop i = Inr r \<longrightarrow>
        (r \<noteq> []) = (\<exists>n p. py_len pop = Inr n \<and> i < n \<and> py_index pop i = Inr p \<and> p \<noteq> JNull))
   \<and> rain_clause py pop i \<noteq> Inl IndexError
   \<and> rain_clause py (JArr ps) i =
        Inr (if i < length ps \<and> ps ! i \<noteq> JNull
             then ''  (rain prob '' @ py_str py (ps ! i) @ ''%)'' else [])
   \<and> (truthy v \<longrightarrow>
        format_daily py v u d =
          ebind (format_daily_lines py v u d) (\<lambda>lines. Inr (py_join [CHR 0x0A] lines)))"
proof (intro conjI impI)
  assume a: "format_daily_lines py (JObj kvs) u d = Inr ls"
  let ?pop = "dict_get kvs ''precipitation_probability_max'' (JArr [])"
  from format_daily_lines_Inr [OF a] obtain n per_day
    where n: "py_len (dict_get kvs ''time'' (JArr [])) = Inr n"
      and ls: "ls = ''Forecast:'' # per_day"
      and len: "length per_day = nat (min d (int n))"
      and line: "\<forall>i < length per_day.
                 daily_line py (dict_get kvs ''time'' (JArr []))
                   (dict_get kvs ''temperature_2m_min'' (JArr []))
                   (dict_get kvs ''temperature_2m_max'' (JArr [])) ?pop (u_temp u) i
                 = Inr (per_day ! i)"
    by blast
  have l1: "int (length per_day) = max 0 (min d (int n))" using len by simp
  have l2: "0 \<le> d \<longrightarrow> int (length per_day) \<le> min d (int n)" using len by simp
  have l3: "d < 0 \<longrightarrow> per_day = []"
  proof
    assume "d < 0"
    then have "nat (min d (int n)) = 0" by simp
    with len show "per_day = []" by simp
  qed
  have l4: "\<forall>i < length per_day. \<exists>dt lo hi r.
               rain_clause py ?pop i = Inr r
               \<and> per_day ! i = ''  '' @ py_str py dt @ ''  min '' @ py_str py lo @ u_temp u
                     @ '' / max '' @ py_str py hi @ u_temp u @ r"
  proof (intro allI impI)
    fix i assume "i < length per_day"
    with line have "daily_line py (dict_get kvs ''time'' (JArr []))
                   (dict_get kvs ''temperature_2m_min'' (JArr []))
                   (dict_get kvs ''temperature_2m_max'' (JArr [])) ?pop (u_temp u) i
                 = Inr (per_day ! i)" by blast
    from daily_line_Inr [OF this]
    show "\<exists>dt lo hi r. rain_clause py ?pop i = Inr r
               \<and> per_day ! i = ''  '' @ py_str py dt @ ''  min '' @ py_str py lo @ u_temp u
                     @ '' / max '' @ py_str py hi @ u_temp u @ r"
      by blast
  qed
  from n ls l1 l2 l3 l4
  show "\<exists>n per_day. py_len (dict_get kvs ''time'' (JArr [])) = Inr n
         \<and> ls = ''Forecast:'' # per_day
         \<and> int (length per_day) = max 0 (min d (int n))
         \<and> (0 \<le> d \<longrightarrow> int (length per_day) \<le> min d (int n))
         \<and> (d < 0 \<longrightarrow> per_day = [])
         \<and> (\<forall>i < length per_day. \<exists>dt lo hi r.
               rain_clause py ?pop i = Inr r
               \<and> per_day ! i = ''  '' @ py_str py dt @ ''  min '' @ py_str py lo @ u_temp u
                     @ '' / max '' @ py_str py hi @ u_temp u @ r)"
    by blast
next
  assume "\<forall>kvs. v \<noteq> JObj kvs"
  then show "format_daily_lines py v u d = Inl AttributeError"
    by (cases v) (simp_all add: format_daily_lines_def)
next
  assume "rain_clause py pop i = Inr r"
  then show "(r \<noteq> []) = (\<exists>n p. py_len pop = Inr n \<and> i < n \<and> py_index pop i = Inr p \<and> p \<noteq> JNull)"
    by (rule rain_clause_Inr(1))
next
  show "rain_clause py pop i \<noteq> Inl IndexError" by (rule rain_clause_no_IndexError)
next
  show "rain_clause py (JArr ps) i =
        Inr (if i < length ps \<and> ps ! i \<noteq> JNull
             then ''  (rain prob '' @ py_str py (ps ! i) @ ''%)'' else [])"
    by (rule rain_clause_JArr)
next
  assume "truthy v"
  then show "format_daily py v u d =
          ebind (format_daily_lines py v u d) (\<lambda>lines. Inr (py_join [CHR 0x0A] lines))"
    by (simp add: format_daily_def)
qed

theorem daily_lines_bounded_witness:
  "format_daily_lines sample_py (JObj sample_daily) ''metric'' 5
     = Inr [''Forecast:'',
            ''  2024-01-05  min 9.0'' @ deg_C @ '' / max 21.5'' @ deg_C @ ''  (rain prob 40%)'',
            ''  2024-01-06  min 3'' @ deg_C @ '' / max 9.0'' @ deg_C,
            ''  2024-01-07  min 9.0'' @ deg_C @ '' / max 21.5'' @ deg_C]
   \<and> (\<exists>n per_day. py_len (dict_get sample_daily ''time'' (JArr [])) = Inr n
         \<and> [''Forecast:'',
            ''  2024-01-05  min 9.0'' @ deg_C @ '' / max 21.5'' @ deg_C @ ''  (rain prob 40%)'',
            ''  2024-01-06  min 3'' @ deg_C @ '' / max 9.0'' @ deg_C,
            ''  2024-01-07  min 9.0'' @ deg_C @ '' / max 21.5'' @ deg_C] = ''Forecast:'' # per_day
         \<and> int (length per_day) = max 0 (min 5 (int n))
         \<and> int (length per_day) \<le> min 5 (int n))
   \<and> py_len (dict_get sample_daily ''time'' (JArr [])) = Inr 3
   \<and> rain_clause sample_py (JArr [JInt 40, JNull]) 0 = Inr ''  (rain prob 40%)''
   \<and> rain_clause sample_py (JArr [JInt 40, JNull]) 1 = Inr []
   \<and> rain_clause sample_py (JArr [JInt 40, JNull]) 2 = Inr []
   \<and> format_daily_lines sample_py (JObj sample_daily) ''metric'' (- 1) = Inr [''Forecast:'']"
proof -
  let ?ls = "[''Forecast:'',
            ''  2024-01-05  min 9.0'' @ deg_C @ '' / max 21.5'' @ deg_C @ ''  (rain prob 40%)'',
            ''  2024-01-06  min 3'' @ deg_C @ '' / max 9.0'' @ deg_C,
            ''  2024-01-07  min 9.0'' @ deg_C @ '' / max 21.5'' @ deg_C]"
  have h: "format_daily_lines sample_py (JObj sample_daily) ''metric'' 5 = Inr ?ls"
    by code_simp
  have n: "py_len (dict_get sample_daily ''time'' (JArr [])) = Inr 3" by code_simp
  have r: "rain_clause sample_py (JArr [JInt 40, JNull]) 0 = Inr ''  (rain prob 40%)''
     \<and> rain_clause sample_py (JArr [JInt 40, JNull]) 1 = Inr []
     \<and> rain_clause sample_py (JArr [JInt 40, JNull]) 2 = Inr []"
    by code_simp
  have m: "format_daily_lines sample_py (JObj sample_daily) ''metric'' (- 1) = Inr [''Forecast:'']"
    by code_simp
  have "\<exists>n per_day. py_len (dict_get sample_daily ''time'' (JArr [])) = Inr n
         \<and> ?ls = ''Forecast:'' # per_day
         \<and> int (length per_day) = max 0 (min 5 (int n))
         \<and> int (length per_day) \<le> min 5 (int n)"
    using h daily_lines_bounded [of sample_py sample_daily "''metric''" 5 ?ls]
    by fastforce
  with h n r m show ?thesis by simp
qed

text \<open>
  Claim C4 says that \<^verbatim>\<open>format_daily\<close> never reads past the shortest of the date,
  minimum and maximum sequences. The loop is bounded by the dates alone: with two dates,
  two maxima and one minimum the second day raises IndexError, and so does a payload that
  has dates and no temperatures at all.
\<close>

theorem short_min_sequence_raises:
  "format_daily sample_py (JObj sample_daily_short) ''metric'' 3 = Inl IndexError
   \<and> format_daily py (JObj [(''time'', JArr [JStr ''2024-01-05''])]) u 1 = Inl IndexError"
proof
  show "format_daily sample_py (JObj sample_daily_short) ''metric'' 3 = Inl IndexError"
    by code_simp
  show "format_daily py (JObj [(''time'', JArr [JStr ''2024-01-05''])]) u 1 = Inl IndexError"
    by (simp add: format_daily_def format_daily_lines_def dict_get_def py_range_def
        daily_line_def)
qed

text \<open>
  Claim C5. For a code that is a key of the static table the lookup returns the
  description stored with it (code 3 gives "Overcast"); for an integer that is not a key
  it returns "WMO " followed by the decimal numeral of that very integer (code 14 gives
  "WMO 14"). The lookup is a total function: it has no failing case.
\<close>

theorem wmo_lookup:
  "((code, d) \<in> set WMO_TEXT \<longrightarrow> wmo_desc code = d)
   \<and> (code \<notin> fst ` set WMO_TEXT \<longrightarrow>
        wmo_desc code = ''WMO '' @ str_int code \<and> dec_int (drop 4 (wmo_desc code)) = code)
   \<and> wmo_desc 3 = ''Overcast''
   \<and> wmo_desc 14 = ''WMO 14''"
proof (intro conjI impI)
  assume "(code, d) \<in> set WMO_TEXT"
  then have "map_of WMO_TEXT code = Some d"
    using distinct_WMO by (rule_tac map_of_is_SomeI)
  then show "wmo_desc code = d" by (simp add: wmo_desc_def)
next
  assume "code \<notin> fst ` set WMO_TEXT"
  then have "map_of WMO_TEXT code = None" by (simp add: map_of_eq_None_iff)
  then show "wmo_desc code = ''WMO '' @ str_int code" by (simp add: wmo_desc_def)
  then show "dec_int (drop 4 (wmo_desc code)) = code" by (simp add: dec_int_str_int)
next
  show "wmo_desc 3 = ''Overcast''" by (simp add: wmo_desc_def WMO_TEXT_def)
next
  show "wmo_desc 14 = ''WMO 14''"
    by (simp add: wmo_desc_def WMO_TEXT_def str_int_def str_nat.simps digit_char_def)
qed

theorem wmo_lookup_witness:
  "(95, ''Thunderstorm'') \<in> set WMO_TEXT \<and> wmo_desc 95 = ''Thunderstorm''
   \<and> (4::int) \<notin> fst ` set WMO_TEXT \<and> wmo_desc 4 = ''WMO 4''
   \<and> (- 1::int) \<notin> fst ` set WMO_TEXT \<and> wmo_desc (- 1) = ''WMO -1''"
proof -
  have a: "(95, ''Thunderstorm'') \<in> set WMO_TEXT" by (simp add: WMO_TEXT_def)
  have b: "(4::int) \<notin> fst ` set WMO_TEXT" by (simp add: WMO_TEXT_def)
  have c: "(- 1::int) \<notin> fst ` set WMO_TEXT" by (simp add: WMO_TEXT_def)
  have s4: "str_int 4 = ''4''" by (simp add: str_int_def str_nat.simps digit_char_def)
  have s1: "str_int (- 1) = ''-1''" by (simp add: str_int_def str_nat.simps digit_char_def)
  show ?thesis
    using a b c s4 s1 wmo_lookup [of 95 "''Thunderstorm''"] wmo_lookup [of 4 "[]"] wmo_lookup [of "- 1" "[]"]
    by simp
qed

text \<open>
  Claim C6 says that the header shows the name alone when the country is absent. A
  geocoding result without a country makes \<^verbatim>\<open>geocode\<close> store \<^verbatim>\<open>None\<close> under
  \<^verbatim>\<open>country\<close>, so the default \<^verbatim>\<open>''\<close> of \<^verbatim>\<open>where.get\<close> is never taken and the header
  reads "Berlin, None"; only an empty country text is trimmed away.
\<close>

theorem missing_country_prints_None:
  "stdout (main sample_py net_no_country (sample_args ''Berlin''))
     = [''Berlin, None  (lat 52.52, lon 13.41)'',
        ''Current (2024-01-05 13:07): Overcast, 21.5'' @ deg_C @ '', wind 9.0 km/h'',
        ''Forecast:'' @ [CHR 0x0A]
          @ ''  2024-01-05  min 9.0'' @ deg_C @ '' / max 21.5'' @ deg_C @ ''  (rain prob 40%)''
          @ [CHR 0x0A] @ ''  2024-01-06  min 3'' @ deg_C @ '' / max 9.0'' @ deg_C
          @ [CHR 0x0A] @ ''  2024-01-07  min 9.0'' @ deg_C @ '' / max 21.5'' @ deg_C]
   \<and> geocode sample_py net_no_country ''Berlin'' ''en''
       = Inr (JObj [(''name'', JStr ''Berlin''), (''country'', JNull), (''lat'', JFloat 52.52),
                    (''lon'', JFloat 13.41), (''tz'', JStr ''Europe/Berlin'')])
   \<and> header_line sample_py
        (JObj [(''name'', JStr ''Berlin''), (''country'', JStr ''''), (''lat'', JFloat 52.52),
               (''lon'', JFloat 13.41), (''tz'', JStr ''Europe/Berlin'')])
       = Inr ''Berlin  (lat 52.52, lon 13.41)''"
  by code_simp

text \<open>
  Claim C7. When the geocoding service answers with no result (the key
  \<^verbatim>\<open>results\<close> is missing or its value is empty), the driver prints nothing on standard
  output, prints on the error stream the one line that quotes the place name, and
  returns 2. Whenever the driver returns a code it is 0 or 2; it returns 2 exactly when
  \<^verbatim>\<open>geocode\<close> gave \<^verbatim>\<open>None\<close>, and 0 exactly when the three lines of a complete
  rendering have been printed. Every other end of a run is an exception.
\<close>

theorem exit_codes:
  "(net (geocode_url py (place a) (lang a)) = Http_response 200 (Some (JObj kvs))
      \<and> \<not> truthy (dict_get kvs ''results'' JNull) \<longrightarrow>
      main py net a =
        \<lparr>stdout = [],
         stderr = [''Could not find a place named '' @ [CHR 0x27] @ place a @ [CHR 0x27]
                     @ ''. Try a more specific name.''],
         result = Inr 2\<rparr>)
   \<and> (result (main py net a) = Inr c \<longrightarrow> c = 0 \<or> c = 2)
   \<and> (result (main py net a) = Inr 2) = (geocode py net (place a) (lang a) = Inr JNull)
   \<and> (result (main py net a) = Inr 0) = (length (stdout (main py net a)) = 3)
   \<and> (result (main py net a) = Inr 0 \<longrightarrow> stderr (main py net a) = [])"
proof (intro conjI impI)
  assume "net (geocode_url py (place a) (lang a)) = Http_response 200 (Some (JObj kvs))
      \<and> \<not> truthy (dict_get kvs ''results'' JNull)"
  then have "geocode py net (place a) (lang a) = Inr JNull"
    by (intro geocode_not_found [of net py "place a" "lang a" kvs]) simp_all
  then show "main py net a =
        \<lparr>stdout = [],
         stderr = [''Could not find a place named '' @ [CHR 0x27] @ place a @ [CHR 0x27]
                     @ ''. Try a more specific name.''],
         result = Inr 2\<rparr>"
    by (simp add: main_not_found not_found_message_def)
next
  assume "result (main py net a) = Inr c"
  then show "c = 0 \<or> c = 2" by (rule main_result)
next
  show "(result (main py net a) = Inr 2) = (geocode py net (place a) (lang a) = Inr JNull)"
    by (rule main_two_iff)
next
  show "(result (main py net a) = Inr 0) = (length (stdout (main py net a)) = 3)"
    by (rule main_zero_iff)
next
  assume "result (main py net a) = Inr 0"
  then show "stderr (main py net a) = []" by (rule main_zero_stderr)
qed

theorem exit_codes_witness:
  "net_empty (geocode_url sample_py (place (sample_args ''Zzzzqqxx123'')) (lang (sample_args ''Zzzzqqxx123'')))
     = Http_response 200 (Some (JObj [(''generationtime_ms'', JFloat 9)]))
   \<and> \<not> truthy (dict_get [(''generationtime_ms'', JFloat 9)] ''results'' JNull)
   \<and> main sample_py net_empty (sample_args ''Zzzzqqxx123'') =
        \<lparr>stdout = [],
         stderr = [''Could not find a place named '' @ [CHR 0x27] @ ''Zzzzqqxx123'' @ [CHR 0x27]
                     @ ''. Try a more specific name.''],
         result = Inr 2\<rparr>
   \<and> result (main sample_py net_berlin (sample_args ''Berlin'')) = Inr 0
   \<and> length (stdout (main sample_py net_berlin (sample_args ''Berlin''))) = 3
   \<and> stderr (main sample_py net_berlin (sample_args ''Berlin'')) = []
   \<and> hd (stdout (main sample_py net_berlin (sample_args ''Berlin'')))
        = ''Berlin, Germany  (lat 52.52, lon 13.41)''"
proof -
  have h1: "net_empty (geocode_url sample_py (place (sample_args ''Zzzzqqxx123'')) (lang (sample_args ''Zzzzqqxx123'')))
     = Http_response 200 (Some (JObj [(''generationtime_ms'', JFloat 9)]))"
    by (simp add: net_empty_def)
  have h2: "\<not> truthy (dict_get [(''generationtime_ms'', JFloat 9)] ''results'' JNull)"
    by (simp add: dict_get_def)
  have p: "place (sample_args ''Zzzzqqxx123'') = ''Zzzzqqxx123''" by (simp add: sample_args_def)
  have a: "main sample_py net_empty (sample_args ''Zzzzqqxx123'') =
        \<lparr>stdout = [],
         stderr = [''Could not find a place named '' @ [CHR 0x27] @ ''Zzzzqqxx123'' @ [CHR 0x27]
                     @ ''. Try a more specific name.''],
         result = Inr 2\<rparr>"
    using h1 h2 p
      exit_codes [of net_empty sample_py "sample_args ''Zzzzqqxx123''"
        "[(''generationtime_ms'', JFloat 9)]" 2]
    by simp
  have r: "result (main sample_py net_berlin (sample_args ''Berlin'')) = Inr 0" by code_simp
  have hd: "hd (stdout (main sample_py net_berlin (sample_args ''Berlin'')))
        = ''Berlin, Germany  (lat 52.52, lon 13.41)''" by code_simp
  note t = exit_codes [of net_berlin sample_py "sample_args ''Berlin''" "[]" 0]
  have l: "length (stdout (main sample_py net_berlin (sample_args ''Berlin''))) = 3"
    using t r by blast
  have e: "stderr (main sample_py net_berlin (sample_args ''Berlin'')) = []"
    using t r by blast
  show ?thesis using h1 h2 a r l e hd by simp
qed

text \<open>
  Claim C8. When the record of the current conditions is absent (the key is missing, so
  that \<^verbatim>\<open>data.get\<close> gives \<^verbatim>\<open>None\<close>, or the record is empty),
  \<^verbatim>\<open>format_current\<close> returns exactly the line "Current: (no data)"; when the daily
  block is absent, \<^verbatim>\<open>format_daily\<close> returns exactly "Forecast: (no data)". Neither
  fails: the result is a value, not an exception. The same holds for every value that
  Python takes for false.
\<close>

theorem absent_gives_placeholder:
  "(\<not> truthy v \<longrightarrow>
      format_current py v u = Inr ''Current: (no data)''
      \<and> format_daily py v u d = Inr ''Forecast: (no data)'')
   \<and> (map_of kvs ''current_weather'' = None \<longrightarrow>
        ebind (py_get (JObj kvs) ''current_weather'' JNull) (\<lambda>c. format_current py c u)
          = Inr ''Current: (no data)'')
   \<and> (map_of kvs ''daily'' = None \<longrightarrow>
        ebind (py_get (JObj kvs) ''daily'' JNull) (\<lambda>c. format_daily py c u d)
          = Inr ''Forecast: (no data)'')
   \<and> format_current py JNull u = Inr ''Current: (no data)''
   \<and> format_current py (JObj []) u = Inr ''Current: (no data)''
   \<and> format_daily py JNull u d = Inr ''Forecast: (no data)''
   \<and> format_daily py (JObj []) u d = Inr ''Forecast: (no data)''"
  by (simp add: format_current_def format_daily_def dict_get_def)

theorem absent_gives_placeholder_witness:
  "\<not> truthy (JObj [])
   \<and> format_current sample_py (JObj []) ''metric'' = Inr ''Current: (no data)''
   \<and> format_daily sample_py (JObj []) ''metric'' 3 = Inr ''Forecast: (no data)''
   \<and> map_of [(''latitude'', JFloat 52.5)] ''current_weather'' = None
   \<and> ebind (py_get (JObj [(''latitude'', JFloat 52.5)]) ''current_weather'' JNull)
        (\<lambda>c. format_current sample_py c ''metric'') = Inr ''Current: (no data)''
   \<and> map_of [(''latitude'', JFloat 52.5)] ''daily'' = None
   \<and> ebind (py_get (JObj [(''latitude'', JFloat 52.5)]) ''daily'' JNull)
        (\<lambda>c. format_daily sample_py c ''metric'' 3) = Inr ''Forecast: (no data)''"
  using absent_gives_placeholder [of "JObj []" sample_py "''metric''" 3 "[(''latitude'', JFloat 52.5)]"]
  by simp




text \<open>
  Claim C10. For a day count \<open>d \<le> 0\<close> and a daily block whose dates have a length,
  \<^verbatim>\<open>format_daily\<close> renders the header "Forecast:" alone, while the request of
  \<^verbatim>\<open>fetch_weather\<close> for the same \<open>d\<close> asks for 1 forecast day. The loop is bounded by
  \<open>d\<close> itself, not by its clamped value: with at least \<open>d\<close> dates in the payload the
  number of rendered days is \<open>max 0 d\<close>, which equals the requested
  \<open>forecast_days d\<close> exactly when \<open>d\<close> lies between 1 and 16. For \<open>d \<le> 0\<close> and any
  payload at all, a text that \<^verbatim>\<open>format_daily\<close> returns is the header alone or the
  placeholder: it never holds the line of a day.
\<close>

theorem days_not_positive:
  "(d \<le> 0 \<and> py_len (dict_get kvs ''time'' (JArr [])) = Inr n \<longrightarrow>
      format_daily_lines py (JObj kvs) u d = Inr [''Forecast:'']
      \<and> (kvs \<noteq> [] \<longrightarrow> format_daily py (JObj kvs) u d = Inr ''Forecast:'')
      \<and> map_of (fetch_weather_params lat lon d u tz) ''forecast_days'' = Some (JInt 1))
   \<and> 1 \<le> forecast_days d
   \<and> (format_daily_lines py (JObj kvs) u d = Inr ls
        \<and> py_len (dict_get kvs ''time'' (JArr [])) = Inr n \<and> d \<le> int n \<longrightarrow>
        int (length (tl ls)) = max 0 d
        \<and> (int (length (tl ls)) = forecast_days d) = (1 \<le> d \<and> d \<le> 16))
   \<and> (d \<le> 0 \<and> format_daily py v u d = Inr s \<longrightarrow>
        s = ''Forecast:'' \<or> s = ''Forecast: (no data)'')"
proof (intro conjI impI)
  assume a: "d \<le> 0 \<and> py_len (dict_get kvs ''time'' (JArr [])) = Inr n"
  then have "min d (int n) \<le> 0" by simp
  then have "py_range (min d (int n)) = []" by (simp add: py_range_def)
  with a show l: "format_daily_lines py (JObj kvs) u d = Inr [''Forecast:'']"
    by (simp add: format_daily_lines_def)
  show "map_of (fetch_weather_params lat lon d u tz) ''forecast_days'' = Some (JInt 1)"
    using a by (simp add: fetch_weather_params_def forecast_days_def)
  assume "kvs \<noteq> []"
  with l show "format_daily py (JObj kvs) u d = Inr ''Forecast:''"
    by (simp add: format_daily_def)
next
  show "1 \<le> forecast_days d" by (simp add: forecast_days_def)
next
  assume a: "format_daily_lines py (JObj kvs) u d = Inr ls
        \<and> py_len (dict_get kvs ''time'' (JArr [])) = Inr n \<and> d \<le> int n"
  from a format_daily_lines_Inr [of py kvs u d ls] obtain per_day
    where ls: "ls = ''Forecast:'' # per_day" and len: "length per_day = nat (min d (int n))"
    by auto
  from a have "min d (int n) = d" by simp
  with ls len have tl: "int (length (tl ls)) = max 0 d" by simp
  then show "int (length (tl ls)) = max 0 d" .
  from tl show "(int (length (tl ls)) = forecast_days d) = (1 \<le> d \<and> d \<le> 16)"
    by (auto simp: forecast_days_def)
next
  assume "d \<le> 0 \<and> format_daily py v u d = Inr s"
  then show "s = ''Forecast:'' \<or> s = ''Forecast: (no data)''"
    using format_daily_no_days [of d py v u s] by blast
qed

theorem days_not_positive_witness:
  "(0::int) \<le> 0 \<and> py_len (dict_get sample_daily ''time'' (JArr [])) = Inr 3
   \<and> format_daily_lines sample_py (JObj sample_daily) ''metric'' 0 = Inr [''Forecast:'']
   \<and> format_daily sample_py (JObj sample_daily) ''metric'' 0 = Inr ''Forecast:''
   \<and> map_of (fetch_weather_params (JFloat 52.52) (JFloat 13.41) 0 ''metric'' (JStr ''auto''))
        ''forecast_days'' = Some (JInt 1)
   \<and> py_len (dict_get sample_daily_long ''time'' (JArr [])) = Inr 17
   \<and> (\<exists>ls. format_daily_lines sample_py (JObj sample_daily_long) ''metric'' 17 = Inr ls
         \<and> int (length (tl ls)) = 17)
   \<and> forecast_days 17 = 16
   \<and> stdout (main sample_py net_berlin (sample_args ''Berlin''\<lparr>days := - 2\<rparr>))
       = [''Berlin, Germany  (lat 52.52, lon 13.41)'',
          ''Current (2024-01-05 13:07): Overcast, 21.5'' @ deg_C @ '', wind 9.0 km/h'',
          ''Forecast:'']"
proof -
  have n: "py_len (dict_get sample_daily ''time'' (JArr [])) = Inr 3" by code_simp
  have ne: "sample_daily \<noteq> []" by code_simp
  note t = days_not_positive [of 0 sample_daily 3 sample_py "''metric''" "JFloat 52.52"
      "JFloat 13.41" "JStr ''auto''"]
  have a: "format_daily_lines sample_py (JObj sample_daily) ''metric'' 0 = Inr [''Forecast:'']"
    using t n by simp
  have b: "format_daily sample_py (JObj sample_daily) ''metric'' 0 = Inr ''Forecast:''"
    using t n ne by simp
  have c: "map_of (fetch_weather_params (JFloat 52.52) (JFloat 13.41) 0 ''metric'' (JStr ''auto''))
        ''forecast_days'' = Some (JInt 1)"
    using t n by simp
  have n17: "py_len (dict_get sample_daily_long ''time'' (JArr [])) = Inr 17" by code_simp
  have le: "(17::int) \<le> int 17" by simp
  let ?ls = "''Forecast:'' # replicate 17 (''  2024-01-05  min 3'' @ deg_C @ '' / max 3'' @ deg_C)"
  have ls: "format_daily_lines sample_py (JObj sample_daily_long) ''metric'' 17 = Inr ?ls"
    by code_simp
  have "int (length (tl ?ls)) = max 0 17"
    using ls n17 le days_not_positive [of 17 sample_daily_long 17 sample_py "''metric''" _ _ _ ?ls]
    by blast
  with ls have d: "\<exists>ls. format_daily_lines sample_py (JObj sample_daily_long) ''metric'' 17 = Inr ls
         \<and> int (length (tl ls)) = 17" by (intro exI [of _ ?ls]) simp
  have f: "forecast_days 17 = 16" by code_simp
  have m: "stdout (main sample_py net_berlin (sample_args ''Berlin''\<lparr>days := - 2\<rparr>))
       = [''Berlin, Germany  (lat 52.52, lon 13.41)'',
          ''Current (2024-01-05 13:07): Overcast, 21.5'' @ deg_C @ '', wind 9.0 km/h'',
          ''Forecast:'']"
    by code_simp
  show ?thesis using n a b c n17 d f m by simp
qed

end
